theory Spec2Isabelle
  imports Complex_Main "HOL-Library.Word" "HOL-Library.Sublist" "HOL-Library.Char_ord"
    "HOL-Library.List_Lexorder"
begin

section \<open>Python exceptions\<close>

text \<open>
  Every exception the modelled code can raise is a value; a computation that may raise
  returns \<open>exn + 'a\<close> with \<open>Inl\<close> for the exception.
\<close>

datatype exn =
    NameError string
  | AttributeError string
  | ValueError string
  | FileNotFoundError string
  | RequestError string
  | OtherError string

section \<open>The inference client (modules/llm\_client.py)\<close>

record llm_client =
  host :: string
  cpu_host :: string
  vision_model :: string
  summary_model :: string
  cpu_container_name :: string

text \<open>The keyword arguments of \<open>LLMClient.generate\<close>; \<open>None\<close> is Python's \<open>None\<close>.\<close>

record gen_args =
  prompt :: string
  system :: string
  context_arg :: "int list option"
  images :: "string list option"
  format_arg :: "string option"
  model_arg :: "string option"

record payload =
  pl_model :: string
  pl_prompt :: string
  pl_stream :: bool
  pl_temperature :: real
  pl_system :: "string option"
  pl_context :: "int list option"
  pl_images :: "string list option"
  pl_format :: "string option"

text \<open>
  What one attempt meets outside the process: whether the GPU-busy flag file exists when
  \<open>os.path.exists\<close> looks, and what \<open>requests.post\<close> and the decoding of its
  answer do. \<open>Raises\<close> is an exception of \<open>requests.post\<close> (connection error, timeout);
  \<open>Bad_json\<close> is a body that \<open>response.json()\<close> cannot decode; \<open>Json_response r\<close>
  is a decoded object whose key \<open>response\<close> holds \<open>r\<close> (\<open>None\<close>: the key is absent).
\<close>

datatype json_body = Bad_json | Json_response "string option"

datatype http_result = Raises | Response nat json_body

record attempt_world =
  gpu_busy :: bool
  reply :: http_result

datatype event =
    Ensure_started string
  | Post string payload
  | Sleep nat

text \<open>Python truthiness of an optional list and of a string.\<close>

definition truthy_list :: "'a list option \<Rightarrow> bool" where
  "truthy_list xs = (case xs of None \<Rightarrow> False | Some l \<Rightarrow> l \<noteq> [])"

definition truthy_opt_str :: "string option \<Rightarrow> bool" where
  "truthy_opt_str x = (case x of None \<Rightarrow> False | Some t \<Rightarrow> t \<noteq> [])"

text \<open>
  \<open>str.strip()\<close>: leading and trailing whitespace removed. The whitespace characters are
  those of Python below code point 256.
\<close>

definition is_space :: "char \<Rightarrow> bool" where
  "is_space c = (of_char c \<in> {9, 10, 11, 12, 13, 28, 29, 30, 31, 32, 133, 160 :: nat})"

definition strip :: "string \<Rightarrow> string" where
  "strip s = rev (dropWhile is_space (rev (dropWhile is_space s)))"

definition delays :: "nat list" where
  "delays = [5, 10, 15]"

definition max_attempts :: nat where
  "max_attempts = length delays + 1"

text \<open>
  The routing block at the head of the \<open>try\<close>: the model, the host, and the call of
  \<open>ensure_started\<close> made on the CPU branch.
\<close>

definition route :: "llm_client \<Rightarrow> string list option \<Rightarrow> bool \<Rightarrow> string \<times> string \<times> event list" where
  "route c imgs flag_exists =
     (if truthy_list imgs then (vision_model c, host c, [])
      else if \<not> flag_exists then (vision_model c, host c, [])
      else (let target_model = summary_model c; target_host = cpu_host c
            in (target_model, target_host,
                if target_host = cpu_host c then [Ensure_started (cpu_container_name c)] else [])))"

definition build_payload :: "string \<Rightarrow> gen_args \<Rightarrow> payload" where
  "build_payload target_model a =
     \<lparr> pl_model = target_model, pl_prompt = prompt a, pl_stream = False, pl_temperature = 0.1,
       pl_system = (if system a \<noteq> [] then Some (system a) else None),
       pl_context = (if truthy_list (context_arg a) then context_arg a else None),
       pl_images = (if truthy_list (images a) then images a else None),
       pl_format = (if truthy_opt_str (format_arg a) then format_arg a else None) \<rparr>"

text \<open>
  What one attempt sends: the call of \<open>ensure_started\<close> on the CPU branch, then the
  \<open>requests.post\<close> to \<open>target_host/api/generate\<close> with the payload.
\<close>

definition request_events :: "llm_client \<Rightarrow> gen_args \<Rightarrow> bool \<Rightarrow> event list" where
  "request_events c a flag_exists =
     (case route c (images a) flag_exists of
        (target_model, target_host, started) \<Rightarrow>
          started @ [Post (target_host @ ''/api/generate'') (build_payload target_model a)])"

text \<open>
  The loop \<open>for attempt in range(max_attempts)\<close>. The \<open>except Exception\<close> branch and
  the HTTP 500 branch share their shape: sleep and go on to the next attempt while a delay
  is left, return the empty string otherwise. The result is the returned string and the
  trace of what the call did.
\<close>

fun attempts :: "llm_client \<Rightarrow> gen_args \<Rightarrow> (nat \<Rightarrow> attempt_world) \<Rightarrow> nat list \<Rightarrow> string \<times> event list" where
  "attempts c a w [] = ([], [])"
| "attempts c a w (attempt # rest) =
     (let sent = request_events c a (gpu_busy (w attempt));
          retry = (if attempt < length delays
                   then (case attempts c a w rest of
                           (r, evs) \<Rightarrow> (r, sent @ Sleep (delays ! attempt) # evs))
                   else ([], sent))
      in case reply (w attempt) of
           Raises \<Rightarrow> retry
         | Response code body \<Rightarrow>
             if code = 200 then
               (case body of
                  Bad_json \<Rightarrow> retry
                | Json_response r \<Rightarrow> (strip (case r of None \<Rightarrow> [] | Some t \<Rightarrow> t), sent))
             else if code = 500 then retry
             else ([], sent))"

definition generate :: "llm_client \<Rightarrow> gen_args \<Rightarrow> (nat \<Rightarrow> attempt_world) \<Rightarrow> string \<times> event list" where
  "generate c a w = attempts c a w [0..<max_attempts]"

text \<open>Projections of the trace of one call.\<close>

fun posts_of :: "event list \<Rightarrow> (string \<times> string) list" where
  "posts_of [] = []"
| "posts_of (Post url p # evs) = (url, pl_model p) # posts_of evs"
| "posts_of (_ # evs) = posts_of evs"

fun sleeps_of :: "event list \<Rightarrow> nat list" where
  "sleeps_of [] = []"
| "sleeps_of (Sleep n # evs) = n # sleeps_of evs"
| "sleeps_of (_ # evs) = sleeps_of evs"

definition transient :: "http_result \<Rightarrow> bool" where
  "transient r = (case r of Raises \<Rightarrow> True | Response code body \<Rightarrow> code = 500)"


text \<open>A client, a text-only request and two courses of events, for concrete runs.\<close>

definition example_client :: llm_client where
  "example_client =
     \<lparr> host = ''http://gpu:11434'', cpu_host = ''http://cpu:11434'',
       vision_model = ''qwen2.5vl:7b'', summary_model = ''llama3'',
       cpu_container_name = ''paperless_ollama_cpu'' \<rparr>"

definition text_request :: gen_args where
  "text_request =
     \<lparr> prompt = ''Fasse zusammen'', system = [], context_arg = None, images = None,
       format_arg = None, model_arg = None \<rparr>"

definition busy_then_ok :: "nat \<Rightarrow> attempt_world" where
  "busy_then_ok i =
     \<lparr> gpu_busy = True,
       reply = (if i < 2 then Response 500 Bad_json
                else Response 200 (Json_response (Some '' Rechnung 42 ''))) \<rparr>"

definition always_down :: "nat \<Rightarrow> attempt_world" where
  "always_down i = \<lparr> gpu_busy = False, reply = (if even i then Raises else Response 500 Bad_json) \<rparr>"

section \<open>Content hashes (ai\_watchdog.py, ai\_post\_consume.py)\<close>

text \<open>
  \<open>hashlib\<close> is a library: a hash object is modelled by the digest it yields after the
  chunks were fed to \<open>update\<close> in order, a word of the algorithm's width (128 bits for
  MD5, 256 bits for SHA-256). \<open>hexdigest\<close> prints it in lower-case hexadecimal, four
  bits to the digit.
\<close>

function read_chunks :: "string \<Rightarrow> string list" where
  "read_chunks bs = (if take 4096 bs = [] then [] else take 4096 bs # read_chunks (drop 4096 bs))"
  by pat_completeness auto
termination
  by (relation "measure length") auto

declare read_chunks.simps [simp del]

definition hex_digit :: "nat \<Rightarrow> char" where
  "hex_digit n = ''0123456789abcdef'' ! (n mod 16)"

definition hexdigest :: "'a::len word \<Rightarrow> string" where
  "hexdigest d = map (\<lambda>i. hex_digit (unat (drop_bit (4 * i) d) mod 16)) (rev [0..<LENGTH('a) div 4])"

text \<open>
  \<open>calculate_md5\<close> of the watchdog; \<open>None\<close> is a path with no file behind it, where
  \<open>open\<close> raises.
\<close>

definition calculate_md5 :: "(string list \<Rightarrow> 128 word) \<Rightarrow> string option \<Rightarrow> exn + string" where
  "calculate_md5 md5 file =
     (case file of
        None \<Rightarrow> Inl (FileNotFoundError ''open'')
      | Some bs \<Rightarrow> Inr (hexdigest (md5 (read_chunks bs))))"

text \<open>
  The uid and the sidecar path of \<open>main\<close> in ai\_post\_consume.py: the file is the one at
  \<open>DOCUMENT_SOURCE_PATH\<close> (or \<open>file_path\<close>), \<open>None\<close> when there is no such path or no
  file behind it. The path is given by the name in the buffer directory.
\<close>

definition post_consume_uid :: "(string list \<Rightarrow> 256 word) \<Rightarrow> string option \<Rightarrow> string option" where
  "post_consume_uid sha256 file =
     (case file of None \<Rightarrow> None | Some bs \<Rightarrow> Some (hexdigest (sha256 (read_chunks bs))))"

definition sidecar_path :: "(string list \<Rightarrow> 256 word) \<Rightarrow> string option \<Rightarrow> string \<Rightarrow> string" where
  "sidecar_path sha256 file original_filename =
     (case post_consume_uid sha256 file of
        Some uid \<Rightarrow> (if uid \<noteq> [] then uid @ ''.json'' else original_filename @ ''.json'')
      | None \<Rightarrow> original_filename @ ''.json'')"

section \<open>Page normalisation (modules/document\_optimizer.py)\<close>

text \<open>
  The body of the \<open>try\<close> in \<open>optimize_image\<close> is library code (PIL, base64): it either
  raises or yields the Base64 text of the PNG. The function returns that text, or logs
  the error and returns the empty string.
\<close>

datatype log_line = Log_error string

definition optimize_image :: "(string \<Rightarrow> exn + string) \<Rightarrow> string \<Rightarrow> string \<times> log_line list" where
  "optimize_image pipeline img_path =
     (case pipeline img_path of
        Inr b64 \<Rightarrow> (b64, [])
      | Inl e \<Rightarrow> ([], [Log_error (''Error optimizing image '' @ img_path)]))"

text \<open>
  The loop of \<open>process_file_single\<close> (and of \<open>recover_staged_files\<close> and \<open>ai_retagger\<close>)
  over the rendered pages: every result is appended.
\<close>

fun optimize_pages :: "(string \<Rightarrow> exn + string) \<Rightarrow> string list \<Rightarrow> string list \<times> log_line list" where
  "optimize_pages pipeline [] = ([], [])"
| "optimize_pages pipeline (p # ps) =
     (case optimize_image pipeline p of
        (b64, lg) \<Rightarrow> (case optimize_pages pipeline ps of (bs, lgs) \<Rightarrow> (b64 # bs, lg @ lgs)))"

text \<open>The same loop in \<open>perform_vision_retry\<close> of ai\_post\_consume.py, with its \<open>if b64\<close>.\<close>

fun retry_optimize_pages :: "(string \<Rightarrow> exn + string) \<Rightarrow> string list \<Rightarrow> string list \<times> log_line list" where
  "retry_optimize_pages pipeline [] = ([], [])"
| "retry_optimize_pages pipeline (p # ps) =
     (case optimize_image pipeline p of
        (b64, lg) \<Rightarrow>
          (case retry_optimize_pages pipeline ps of
             (bs, lgs) \<Rightarrow> (if b64 \<noteq> [] then b64 # bs else bs, lg @ lgs)))"

section \<open>Jobs, the queue and the directories (ai\_watchdog.py)\<close>

record dup_info =
  is_duplicate :: bool
  original_id :: int
  dup_similarity :: real

text \<open>
  A queue item. \<open>staged_file\<close> is the name of the file in the staging directory and
  \<open>work_dir\<close> the name of the directory under \<open>/volume1/temp\<close>; the keys
  \<open>duplicate_info\<close> and \<open>retro_doc_id\<close> are read with \<open>item.get\<close> and may be absent.
\<close>

record job =
  uid :: string
  original_filename :: string
  staged_file :: string
  work_dir :: string
  b64_images :: "string list"
  duplicate_info :: "dup_info option"
  retro_doc_id :: "int option"

record sidecar =
  sc_metadata :: "(string \<times> string) list"
  sc_duplicate_info :: "dup_info option"
  sc_ai_content :: string
  sc_scan_date :: real
  sc_original_filename :: string
  sc_uid :: string

text \<open>
  The state the worker and the recovery share. A path is modelled by the directory it lies
  in and its name there: the flag file \<open>GPU_BUSY_FLAG\<close>, the directories
  \<open>STAGING_DIR\<close>, \<open>CONSUME_DIR\<close> and \<open>MD_BUFFER_DIR\<close> with the files in them, and the
  directories under \<open>/volume1/temp\<close>. A file of the buffer directory holds the JSON
  object written to it. \<open>unfinished_tasks\<close> is the counter of \<open>queue.Queue\<close> that
  \<open>put\<close> increments and \<open>task_done\<close> decrements.
\<close>

record world =
  gpu_busy_flag :: bool
  staging :: "string \<rightharpoonup> string"
  consume :: "string \<rightharpoonup> string"
  md_buffer :: "string \<rightharpoonup> sidecar"
  work_dirs :: "string set"
  ocr_queue :: "job list"
  unfinished_tasks :: nat

definition put :: "job \<Rightarrow> world \<Rightarrow> world" where
  "put item s = s\<lparr>ocr_queue := ocr_queue s @ [item], unfinished_tasks := unfinished_tasks s + 1\<rparr>"

definition task_done :: "world \<Rightarrow> exn + world" where
  "task_done s =
     (if unfinished_tasks s = 0 then Inl (ValueError ''task_done() called too many times'')
      else Inr (s\<lparr>unfinished_tasks := unfinished_tasks s - 1\<rparr>))"

text \<open>\<open>shutil.move\<close> of a staged file into the consume directory, and \<open>Path.unlink\<close>.\<close>

definition move_to_consume :: "string \<Rightarrow> string \<Rightarrow> world \<Rightarrow> exn + world" where
  "move_to_consume src target s =
     (case staging s src of
        None \<Rightarrow> Inl (FileNotFoundError src)
      | Some bs \<Rightarrow> Inr (s\<lparr>staging := (staging s)(src := None), consume := (consume s)(target \<mapsto> bs)\<rparr>))"

definition unlink_staged :: "string \<Rightarrow> world \<Rightarrow> exn + world" where
  "unlink_staged src s =
     (case staging s src of
        None \<Rightarrow> Inl (FileNotFoundError src)
      | Some bs \<Rightarrow> Inr (s\<lparr>staging := (staging s)(src := None)\<rparr>))"

definition rmtree :: "string \<Rightarrow> world \<Rightarrow> world" where
  "rmtree d s = s\<lparr>work_dirs := work_dirs s - {d}\<rparr>"

record worker_env =
  wk_client :: llm_client
  ocr_prompt :: string
  llm_world :: "nat \<Rightarrow> nat \<Rightarrow> attempt_world"
  now :: real

text \<open>The loop over the pages: one vision request a page, a marker where it gave nothing.\<close>

definition ocr_pages :: "worker_env \<Rightarrow> string list \<Rightarrow> string list" where
  "ocr_pages env imgs =
     map (\<lambda>(i, b64).
            let text = fst (generate (wk_client env)
                   \<lparr> prompt = ocr_prompt env, system = [], context_arg = None,
                     images = Some [b64], format_arg = None, model_arg = None \<rparr>
                   (llm_world env i))
            in if text = [] then ''[OCR FEHLER]'' else text)
         (enumerate 0 imgs)"

text \<open>
  Two names the worker reads are bound nowhere: \<open>full_ai_text\<close> is assigned neither in
  \<open>gpu_worker\<close> nor at module level (the page loop fills \<open>page_texts\<close> and nothing joins
  it), and \<open>PaperlessClient\<close> sets no attribute \<open>session\<close>. Reading them raises.
\<close>

definition full_ai_text :: "exn + string" where
  "full_ai_text = Inl (NameError ''full_ai_text'')"

definition client_session :: "exn + unit" where
  "client_session = Inl (AttributeError ''session'')"

definition truthy_int :: "int option \<Rightarrow> bool" where
  "truthy_int x = (case x of None \<Rightarrow> False | Some n \<Rightarrow> n \<noteq> 0)"

text \<open>
  The retroactive branch: its own \<open>try\<close> catches every exception and logs it. The calls
  that patch the document and swap its tags act on the backend, outside this state.
\<close>

definition retroactive_path :: "job \<Rightarrow> world \<Rightarrow> world" where
  "retroactive_path item s =
     (case client_session of
        Inl api_err \<Rightarrow> s
      | Inr session \<Rightarrow>
          (case full_ai_text of
             Inl api_err \<Rightarrow> s
           | Inr txt \<Rightarrow>
               (if staged_file item \<in> dom (staging s)
                then (case unlink_staged (staged_file item) s of Inl api_err \<Rightarrow> s | Inr s' \<Rightarrow> s')
                else s)))"

text \<open>
  The standard branch: the sidecar dictionary is built (which reads \<open>full_ai_text\<close>),
  written to \<open>uid.json\<close> in the buffer directory, and the staged file is moved to the
  consume directory under its original name.
\<close>

definition standard_path :: "worker_env \<Rightarrow> job \<Rightarrow> world \<Rightarrow> (exn \<times> world) + world" where
  "standard_path env item s =
     (let sidecar_json = uid item @ ''.json'' in
      case full_ai_text of
        Inl e \<Rightarrow> Inl (e, s)
      | Inr txt \<Rightarrow>
          (let sidecar_data =
                 \<lparr> sc_metadata = [], sc_duplicate_info = duplicate_info item, sc_ai_content = txt,
                   sc_scan_date = now env, sc_original_filename = original_filename item,
                   sc_uid = uid item \<rparr>;
               s1 = s\<lparr>md_buffer := (md_buffer s)(sidecar_json \<mapsto> sidecar_data)\<rparr>;
               target_consume = original_filename item
           in case move_to_consume (staged_file item) target_consume s1 of
                Inl e \<Rightarrow> Inl (e, s1)
              | Inr s2 \<Rightarrow> Inr s2))"

text \<open>The end of the \<open>try\<close>: work directory, \<open>task_done\<close>, and the flag when the queue is empty.\<close>

definition finish_job :: "job \<Rightarrow> world \<Rightarrow> (exn \<times> world) + world" where
  "finish_job item s =
     (let s1 = (if work_dir item \<in> work_dirs s then rmtree (work_dir item) s else s) in
      case task_done s1 of
        Inl e \<Rightarrow> Inl (e, s1)
      | Inr s2 \<Rightarrow>
          Inr (if ocr_queue s2 = []
               then (if gpu_busy_flag s2 then s2\<lparr>gpu_busy_flag := False\<rparr> else s2)
               else s2))"

definition try_body :: "worker_env \<Rightarrow> job \<Rightarrow> world \<Rightarrow> (exn \<times> world) + world" where
  "try_body env item s0 =
     (let s1 = s0\<lparr>gpu_busy_flag := True\<rparr>;
          page_texts = ocr_pages env (b64_images item)
      in if truthy_int (retro_doc_id item)
         then finish_job item (retroactive_path item s1)
         else (case standard_path env item s1 of
                 Inl es \<Rightarrow> Inl es
               | Inr s2 \<Rightarrow> finish_job item s2))"

text \<open>
  The \<open>except Exception\<close> of the loop. \<open>locals\<close> is the item when its fields were bound
  before the exception (the tests \<open>'work_dir' in locals()\<close>, \<open>'staged_file' in locals()\<close>).
  The move and \<open>task_done\<close> have a bare \<open>except: pass\<close> of their own.
\<close>

definition except_handler :: "job option \<Rightarrow> world \<Rightarrow> world" where
  "except_handler locals s =
     (let s1 = (if gpu_busy_flag s then s\<lparr>gpu_busy_flag := False\<rparr> else s);
          s2 = (case locals of
                  Some item \<Rightarrow> (if work_dir item \<in> work_dirs s1 then rmtree (work_dir item) s1 else s1)
                | None \<Rightarrow> s1);
          s3 = (case locals of
                  Some item \<Rightarrow>
                    (let target_consume = original_filename item in
                     if staged_file item \<in> dom (staging s2)
                     then (case move_to_consume (staged_file item) target_consume s2 of
                             Inl e \<Rightarrow> s2 | Inr s' \<Rightarrow> s')
                     else s2)
                | None \<Rightarrow> s2)
      in case task_done s3 of Inl e \<Rightarrow> s3 | Inr s4 \<Rightarrow> s4)"

text \<open>
  One turn of \<open>while True\<close>: \<open>None\<close> when the queue is empty and \<open>get\<close> blocks, else the
  state after the turn and the exception the handler caught, if any.
\<close>

definition gpu_worker_step :: "worker_env \<Rightarrow> world \<Rightarrow> (world \<times> exn option) option" where
  "gpu_worker_step env s =
     (case ocr_queue s of
        [] \<Rightarrow> None
      | item # rest \<Rightarrow>
          Some (case try_body env item (s\<lparr>ocr_queue := rest\<rparr>) of
                  Inr s' \<Rightarrow> (s', None)
                | Inl (e, s') \<Rightarrow> (except_handler (Some item) s', Some e)))"

text \<open>A new scan of two pages waiting in the queue, for concrete runs.\<close>

definition example_job :: job where
  "example_job =
     \<lparr> uid = ''0f343b0931126a20f133d67c2b018a3b'', original_filename = ''scan.pdf'',
       staged_file = ''0f343b0931126a20f133d67c2b018a3b.pdf'',
       work_dir = ''watch_work_1700000000_scan.pdf'', b64_images = [''iVBORw0'', ''iVBORw1''],
       duplicate_info = None, retro_doc_id = None \<rparr>"

definition example_world :: world where
  "example_world =
     \<lparr> gpu_busy_flag = False,
       staging = [''0f343b0931126a20f133d67c2b018a3b.pdf'' \<mapsto> ''%PDF-1.4''],
       consume = Map.empty, md_buffer = Map.empty,
       work_dirs = {''watch_work_1700000000_scan.pdf''},
       ocr_queue = [example_job], unfinished_tasks = 1 \<rparr>"

definition example_env :: worker_env where
  "example_env =
     \<lparr> wk_client = example_client, ocr_prompt = ''Erkenne den Text in diesem Bild exakt.'',
       llm_world = (\<lambda>page attempt.
          \<lparr> gpu_busy = True, reply = Response 200 (Json_response (Some ''Rechnung 42'')) \<rparr>),
       now = 1700000060 \<rparr>"

section \<open>The backend client (modules/paperless\_client.py)\<close>

record backend_doc =
  bd_id :: int
  bd_title :: string
  bd_checksum :: string

record doc_metadata =
  media_filename :: "string option"
  archive_media_filename :: "string option"

text \<open>
  What the document backend answers and what lies under its media root: the results of
  the search \<open>checksum:c\<close> (or the exception of the request), the metadata of a document
  (\<open>None\<close>: the request failed or the object is empty), and the relative paths present
  under \<open>documents/originals\<close> and \<open>documents/archive\<close>.
\<close>

record backend =
  search_checksum :: "string \<Rightarrow> exn + backend_doc list"
  get_document_metadata :: "int \<Rightarrow> doc_metadata option"
  originals :: "string set"
  archive :: "string set"

text \<open>
  \<open>get_document_by_checksum\<close>: the first result whose checksum is the one asked for;
  a \<open>RequestException\<close> is caught and gives \<open>None\<close>, any other exception leaves the function.
\<close>

definition get_document_by_checksum :: "backend \<Rightarrow> string \<Rightarrow> exn + backend_doc option" where
  "get_document_by_checksum b checksum =
     (case search_checksum b checksum of
        Inl (RequestError m) \<Rightarrow> Inr None
      | Inl e \<Rightarrow> Inl e
      | Inr results \<Rightarrow> Inr (find (\<lambda>res. bd_checksum res = checksum) results))"

text \<open>
  The zombie check of \<open>process_file_single\<close>: is the file of a checksum match present
  on disk? Without metadata the entry is taken to be sound.
\<close>

definition file_exists_check :: "backend \<Rightarrow> int \<Rightarrow> bool" where
  "file_exists_check b dup_id =
     (case get_document_metadata b dup_id of
        Some metadata \<Rightarrow>
          (if (case media_filename metadata of
                 Some orig_rel_path \<Rightarrow> orig_rel_path \<noteq> [] \<and> orig_rel_path \<in> originals b
               | None \<Rightarrow> False) then True
           else if (case archive_media_filename metadata of
                      Some arch_rel_path \<Rightarrow> arch_rel_path \<noteq> [] \<and> arch_rel_path \<in> archive b
                    | None \<Rightarrow> False) then True
           else False)
      | None \<Rightarrow> True)"

section \<open>Startup recovery (ai\_watchdog.py)\<close>

record recovery_env =
  rc_client :: "backend option"
  rc_md5 :: "string list \<Rightarrow> 128 word"
  rc_convert :: "string \<Rightarrow> exn + string list"
  rc_pipeline :: "string \<Rightarrow> exn + string"

text \<open>\<open>Path.stem\<close>: the name without its last suffix.\<close>

definition stem :: "string \<Rightarrow> string" where
  "stem name =
     (let r = dropWhile (\<lambda>c. c \<noteq> CHR ''.'') (rev name)
      in if length r \<le> 1 \<or> takeWhile (\<lambda>c. c \<noteq> CHR ''.'') (rev name) = [] then name
         else rev (tl r))"

text \<open>
  The loop over \<open>set([uid, actual_md5])\<close>: the staged file is unlinked at the first
  candidate the backend knows. (The order in which Python walks the set is not fixed; here
  it is the order of the list.)
\<close>

fun ghost_check :: "backend \<Rightarrow> string list \<Rightarrow> string \<Rightarrow> world \<Rightarrow> (exn \<times> world) + world" where
  "ghost_check client [] staged s = Inr s"
| "ghost_check client (checksum_candidate # cs) staged s =
     (case get_document_by_checksum client checksum_candidate of
        Inl e \<Rightarrow> Inl (e, s)
      | Inr None \<Rightarrow> ghost_check client cs staged s
      | Inr (Some duplicate) \<Rightarrow>
          (case unlink_staged staged s of Inl e \<Rightarrow> Inl (e, s) | Inr s' \<Rightarrow> Inr s'))"

text \<open>Rendering the pages again and putting a fresh item into the queue.\<close>

definition requeue :: "recovery_env \<Rightarrow> string \<Rightarrow> string \<Rightarrow> world \<Rightarrow> (exn \<times> world) + world" where
  "requeue env uid_str staged s =
     (let original = ''recovered_'' @ take 8 uid_str @ ''.pdf'';
          wd = ''recovery_'' @ take 8 uid_str;
          s1 = s\<lparr>work_dirs := insert wd (work_dirs s)\<rparr>
      in case rc_convert env staged of
           Inl e \<Rightarrow> Inl (e, s1)
         | Inr image_paths \<Rightarrow>
             Inr (put \<lparr> uid = uid_str, original_filename = original, staged_file = staged,
                        work_dir = wd,
                        b64_images = fst (optimize_pages (rc_pipeline env) (sort image_paths)),
                        duplicate_info = None, retro_doc_id = None \<rparr> s1))"

definition recover_try :: "recovery_env \<Rightarrow> string \<Rightarrow> world \<Rightarrow> (exn \<times> world) + world" where
  "recover_try env staged s =
     (let uid_str = stem staged in
      case calculate_md5 (rc_md5 env) (staging s staged) of
        Inl e \<Rightarrow> Inl (e, s)
      | Inr actual_md5 \<Rightarrow>
          (case rc_client env of
             None \<Rightarrow> requeue env uid_str staged s
           | Some client \<Rightarrow>
               (case ghost_check client (remdups [uid_str, actual_md5]) staged s of
                  Inl es \<Rightarrow> Inl es
                | Inr s1 \<Rightarrow>
                    if staged \<notin> dom (staging s1) then Inr s1
                    else requeue env uid_str staged s1)))"

text \<open>The body of the loop with its \<open>except\<close>: the fallback move into the consume directory.\<close>

definition recover_one :: "recovery_env \<Rightarrow> string \<Rightarrow> world \<Rightarrow> world" where
  "recover_one env staged s =
     (case recover_try env staged s of
        Inr s' \<Rightarrow> s'
      | Inl (e, s') \<Rightarrow>
          (case move_to_consume staged staged s' of Inl e' \<Rightarrow> s' | Inr s'' \<Rightarrow> s''))"

text \<open>
  \<open>recover_staged_files\<close>: the old \<open>watch_work_*\<close> directories are removed, then every
  staged PDF is handled. \<open>staged_pdfs\<close> is the listing \<open>STAGING_DIR.glob("*.pdf")\<close>.
\<close>

definition recover_staged_files :: "recovery_env \<Rightarrow> string list \<Rightarrow> world \<Rightarrow> world" where
  "recover_staged_files env staged_pdfs s =
     (let s0 = s\<lparr>work_dirs := {d \<in> work_dirs s. \<not> prefix ''watch_work_'' d}\<rparr>
      in if staged_pdfs = [] then s0
         else foldl (\<lambda>st staged. recover_one env staged st) s0 staged_pdfs)"

text \<open>
  A crash left one staged file behind. The backend knows its checksum as document 7, but
  the file of document 7 is on disk neither as original nor as archive version.
\<close>

definition zombie_backend :: backend where
  "zombie_backend =
     \<lparr> search_checksum = (\<lambda>c. if c = ''0f343b0931126a20f133d67c2b018a3b''
          then Inr [\<lparr> bd_id = 7, bd_title = ''Rechnung'', bd_checksum = c \<rparr>] else Inr []),
       get_document_metadata = (\<lambda>i. if i = 7
          then Some \<lparr> media_filename = Some ''2024/rechnung.pdf'', archive_media_filename = None \<rparr>
          else None),
       originals = {}, archive = {} \<rparr>"

definition crashed_world :: world where
  "crashed_world =
     \<lparr> gpu_busy_flag = False,
       staging = [''0f343b0931126a20f133d67c2b018a3b.pdf'' \<mapsto> ''%PDF-1.4''],
       consume = Map.empty, md_buffer = Map.empty, work_dirs = {},
       ocr_queue = [], unfinished_tasks = 0 \<rparr>"

definition zombie_env :: recovery_env where
  "zombie_env =
     \<lparr> rc_client = Some zombie_backend, rc_md5 = (\<lambda>chunks. 0),
       rc_convert = (\<lambda>f. Inr [''page-01.jpg'']), rc_pipeline = (\<lambda>p. Inr ''iVBORw0'') \<rparr>"

text \<open>Three rendered pages, the second of which the normalisation cannot read.\<close>

definition broken_second_page :: "string \<Rightarrow> exn + string" where
  "broken_second_page p =
     (if p = ''page-02.jpg'' then Inl (OtherError ''cannot identify image file'')
      else Inr (''iVBORw0KGgo-'' @ p))"

section \<open>The vector index (modules/chroma\_client.py)\<close>

text \<open>
  One row of the answer of \<open>collection.query\<close>: \<open>hit_id\<close> is the value of
  \<open>int(doc_id_str)\<close> or the exception it raises, \<open>hit_distance\<close> the cosine distance.
\<close>

record hit =
  hit_id :: "exn + int"
  hit_distance :: real

text \<open>
  The collection and the embedding service behind a \<open>ChromaClient\<close>: the vector
  \<open>generate_embedding\<close> gives for a text (empty when it failed), the answer of
  \<open>collection.query\<close> for a vector and \<open>n_results\<close> in the order the index returns it,
  and the answer of \<open>collection.count\<close>.
\<close>

record chroma =
  generate_embedding :: "string \<Rightarrow> real list"
  collection_query :: "real list \<Rightarrow> nat \<Rightarrow> exn + hit list"
  collection_count :: "exn + nat"

record candidate =
  cand_id :: int
  cand_similarity :: real

definition get_embedding :: "chroma \<Rightarrow> string \<Rightarrow> real list" where
  "get_embedding c text = (if text = [] then [] else generate_embedding c (take 8000 text))"

text \<open>The loop of \<open>find_similar\<close> over the rows; an exception ends it.\<close>

fun collect_similar :: "hit list \<Rightarrow> real \<Rightarrow> int option \<Rightarrow> exn + candidate list" where
  "collect_similar [] threshold exclude_id = Inr []"
| "collect_similar (h # hs) threshold exclude_id =
     (case hit_id h of
        Inl e \<Rightarrow> Inl e
      | Inr doc_id \<Rightarrow>
          (case collect_similar hs threshold exclude_id of
             Inl e \<Rightarrow> Inl e
           | Inr similar \<Rightarrow>
               (let similarity = 1 - hit_distance h in
                if truthy_int exclude_id \<and> Some doc_id = exclude_id then Inr similar
                else if similarity \<ge> threshold
                then Inr (\<lparr> cand_id = doc_id, cand_similarity = similarity \<rparr> # similar)
                else Inr similar)))"

definition find_similar :: "chroma \<Rightarrow> string \<Rightarrow> real \<Rightarrow> int option \<Rightarrow> nat \<Rightarrow> candidate list" where
  "find_similar c content threshold exclude_id n_results =
     (let embedding = get_embedding c content in
      if embedding = [] then []
      else (case collection_query c embedding n_results of
              Inl e \<Rightarrow> []
            | Inr hits \<Rightarrow>
                (case collect_similar hits threshold exclude_id of
                   Inl e \<Rightarrow> []
                 | Inr similar \<Rightarrow> similar)))"

definition chroma_count :: "chroma \<Rightarrow> nat" where
  "chroma_count c = (case collection_count c of Inl e \<Rightarrow> 0 | Inr n \<Rightarrow> n)"

section \<open>The duplicate detector (modules/duplicate\_detector.py)\<close>

text \<open>
  The entry \<open>config['modules']['duplicate_detector']\<close>; its keys are read with \<open>get\<close>
  and may be absent.
\<close>

record detector_config =
  cfg_enabled :: "bool option"
  cfg_threshold :: "real option"

text \<open>A document as the backend returns it; \<open>pd_content\<close> is empty when the key is absent.\<close>

record paperless_doc =
  pd_content :: string

text \<open>
  What a run of the detector meets: the configuration entry (\<open>None\<close>: the entry is
  missing, the lookup raises \<open>KeyError\<close>), the construction of the \<open>ChromaClient\<close>,
  and the answers of \<open>PaperlessClient.get_document\<close>. \<open>_extract_dates\<close>,
  \<open>_extract_features\<close> and the word set of \<open>_check_word_similarity\<close> are searches with
  regular expressions of the library \<open>re\<close>; they never raise and are taken as they are.
  Python's floats are modelled by the reals.
\<close>

record detector_env =
  config_entry :: "detector_config option"
  new_chroma_client :: "exn + chroma"
  get_document :: "int \<Rightarrow> exn + paperless_doc option"
  extract_dates :: "string \<Rightarrow> string set"
  extract_features :: "string \<Rightarrow> string set"
  word_set :: "string \<Rightarrow> string set"

definition calculate_jaccard :: "string set \<Rightarrow> string set \<Rightarrow> real" where
  "calculate_jaccard set_a set_b =
     (if set_a = {} \<and> set_b = {} then 0
      else (let intersection = card (set_a \<inter> set_b); union = card (set_a \<union> set_b)
            in if union > 0 then real intersection / real union else 0))"

definition check_word_similarity :: "detector_env \<Rightarrow> string \<Rightarrow> string \<Rightarrow> real" where
  "check_word_similarity env text1 text2 =
     (let words1 = word_set env text1; words2 = word_set env text2
      in if words1 = {} \<or> words2 = {} then 0
         else if words1 \<union> words2 \<noteq> {}
         then real (card (words1 \<inter> words2)) / real (card (words1 \<union> words2))
         else 0)"

text \<open>The thresholds of the date check and of the feature check, by the similarity.\<close>

definition date_threshold :: "real \<Rightarrow> real" where
  "date_threshold similarity = (if similarity > 0.98 then 0.5 else 0.8)"

definition feat_threshold :: "real \<Rightarrow> real" where
  "feat_threshold similarity = (if similarity > 0.98 then 0.5 else 0.8)"

text \<open>
  The safety cascade for a candidate whose content was retrieved: the value of
  \<open>is_confirmed_duplicate\<close> after it.
\<close>

definition safety_check :: "detector_env \<Rightarrow> string \<Rightarrow> string \<Rightarrow> real \<Rightarrow> bool" where
  "safety_check env current_content candidate_content similarity =
     (let dates_current = extract_dates env current_content;
          dates_candidate = extract_dates env candidate_content;
          feats_current = extract_features env current_content;
          feats_candidate = extract_features env candidate_content;
          date_mismatch = (dates_current \<noteq> {} \<and> dates_candidate \<noteq> {} \<and>
                           calculate_jaccard dates_current dates_candidate < date_threshold similarity);
          confirmed1 = (\<not> date_mismatch);
          confirmed2 = (if confirmed1 \<and> feats_current \<noteq> {} \<and> feats_candidate \<noteq> {}
                        then \<not> calculate_jaccard feats_current feats_candidate < feat_threshold similarity
                        else confirmed1)
      in if confirmed2 then
           (let len_ratio = (if length candidate_content > 0
                             then real (length current_content) / real (length candidate_content)
                             else 0);
                confirmed3 = (\<not> (len_ratio < 0.8 \<or> len_ratio > 1.25));
                word_sim = check_word_similarity env current_content candidate_content;
                base_req0 = (if length current_content < 1500 then 0.90 else 0.85);
                base_req = (if similarity > 0.95 then base_req0 - 0.10 else base_req0)
            in if word_sim < base_req then False else confirmed3)
         else False)"

text \<open>
  What a run does to the outside: \<open>Checked c\<close> is the evaluation of candidate \<open>c\<close>
  (it starts with \<open>get_document(c)\<close>), \<open>Handle_duplicate d c s\<close> the call of
  \<open>handle_duplicate\<close>, which adds the note and the tag to document \<open>d\<close>.
\<close>

datatype detector_event = Checked int | Handle_duplicate int int real

text \<open>The loop \<open>for best in similar\<close> with its \<open>continue\<close> and \<open>return\<close>.\<close>

fun examine :: "detector_env \<Rightarrow> int \<Rightarrow> string \<Rightarrow> candidate list \<Rightarrow> detector_event list" where
  "examine env document_id current_content [] = []"
| "examine env document_id current_content (best # rest) =
     Checked (cand_id best) #
     (case get_document env (cand_id best) of
        Inl e \<Rightarrow> examine env document_id current_content rest
      | Inr None \<Rightarrow> examine env document_id current_content rest
      | Inr (Some candidate_doc) \<Rightarrow>
          (if pd_content candidate_doc \<noteq> [] then
             (if safety_check env current_content (pd_content candidate_doc) (cand_similarity best)
              then [Handle_duplicate document_id (cand_id best) (cand_similarity best)]
              else examine env document_id current_content rest)
           else examine env document_id current_content rest))"

definition process :: "detector_env \<Rightarrow> int \<Rightarrow> string \<Rightarrow> exn + detector_event list" where
  "process env document_id current_content =
     (case config_entry env of
        None \<Rightarrow> Inl (OtherError ''KeyError'')
      | Some cfg \<Rightarrow>
          if \<not> (case cfg_enabled cfg of None \<Rightarrow> False | Some b \<Rightarrow> b) then Inr []
          else if current_content = [] \<or> length current_content < 50 then Inr []
          else (case new_chroma_client env of
                  Inl e \<Rightarrow> Inr []
                | Inr chroma \<Rightarrow>
                    (let threshold = (case cfg_threshold cfg of None \<Rightarrow> 0.85 | Some t \<Rightarrow> t);
                         similar = find_similar chroma current_content threshold (Some document_id) 25
                     in if similar \<noteq> [] then Inr (examine env document_id current_content similar)
                        else (let n = chroma_count chroma in Inr []))))"

text \<open>
  The words of the specification: a candidate passes the cascade when its document and
  content can be fetched and no applicable check fails.
\<close>

definition survives :: "detector_env \<Rightarrow> string \<Rightarrow> candidate \<Rightarrow> bool" where
  "survives env current_content c =
     (case get_document env (cand_id c) of
        Inr (Some candidate_doc) \<Rightarrow>
          pd_content candidate_doc \<noteq> [] \<and>
          safety_check env current_content (pd_content candidate_doc) (cand_similarity c)
      | _ \<Rightarrow> False)"

text \<open>A run with three neighbours: the first is a stale vector, the second has the same text.\<close>

definition invoice_text :: string where
  "invoice_text = ''Rechnung Nr. 4711 vom 12.03.2024, Betrag 119,00 EUR, zahlbar bis 31.03.2024''"

definition example_chroma :: chroma where
  "example_chroma =
     \<lparr> generate_embedding = (\<lambda>t. [0.25, 0.5]),
       collection_query = (\<lambda>e n. Inr [\<lparr> hit_id = Inr 11, hit_distance = 1 / 100 \<rparr>,
                                       \<lparr> hit_id = Inr 12, hit_distance = 3 / 100 \<rparr>,
                                       \<lparr> hit_id = Inr 13, hit_distance = 7 / 100 \<rparr>]),
       collection_count = Inr 3 \<rparr>"

definition example_detector :: detector_env where
  "example_detector =
     \<lparr> config_entry = Some \<lparr> cfg_enabled = Some True, cfg_threshold = None \<rparr>,
       new_chroma_client = Inr example_chroma,
       get_document = (\<lambda>i. if i = 11 then Inr None else Inr (Some \<lparr> pd_content = invoice_text \<rparr>)),
       extract_dates = (\<lambda>t. {}), extract_features = (\<lambda>t. {}),
       word_set = (\<lambda>t. {''rechnung''}) \<rparr>"

definition broken_index_detector :: detector_env where
  "broken_index_detector =
     example_detector\<lparr>new_chroma_client :=
        Inr (example_chroma\<lparr>collection_query := (\<lambda>e n. Inl (OtherError ''connection refused''))\<rparr>)\<rparr>"

section \<open>Properties of the inference client\<close>

lemma posts_of_append: "posts_of (xs @ ys) = posts_of xs @ posts_of ys"
  by (induction xs rule: posts_of.induct) simp_all

lemma sleeps_of_append: "sleeps_of (xs @ ys) = sleeps_of xs @ sleeps_of ys"
  by (induction xs rule: sleeps_of.induct) simp_all

lemma posts_of_request_events:
  "posts_of (request_events c a f) =
     [(if truthy_list (images a) then (host c @ ''/api/generate'', vision_model c)
       else if \<not> f then (host c @ ''/api/generate'', vision_model c)
       else (cpu_host c @ ''/api/generate'', summary_model c))]"
  by (simp add: request_events_def route_def build_payload_def Let_def)

lemma sleeps_of_request_events: "sleeps_of (request_events c a f) = []"
  by (simp add: request_events_def route_def Let_def)

lemma range_attempts: "[0..<max_attempts] = [0, 1, 2, 3]"
  by (simp add: max_attempts_def delays_def upt_rec)

lemma attempts_retry:
  assumes "transient (reply (w x))" and "x < length delays"
  shows "attempts c a w (x # xs) =
           (fst (attempts c a w xs),
            request_events c a (gpu_busy (w x)) @ Sleep (delays ! x) # snd (attempts c a w xs))"
  using assms by (cases "reply (w x)"; cases "attempts c a w xs") (auto simp: transient_def Let_def)

lemma attempts_give_up:
  assumes "transient (reply (w x))" and "\<not> x < length delays"
  shows "attempts c a w (x # xs) = ([], request_events c a (gpu_busy (w x)))"
  using assms by (cases "reply (w x)") (auto simp: transient_def Let_def)

lemma attempts_success:
  assumes "reply (w x) = Response 200 (Json_response (Some t))"
  shows "attempts c a w (x # xs) = (strip t, request_events c a (gpu_busy (w x)))"
  using assms by (simp add: Let_def)

lemma attempts_Cons_events:
  "snd (attempts c a w (x # xs)) = request_events c a (gpu_busy (w x)) \<or>
   snd (attempts c a w (x # xs)) =
     request_events c a (gpu_busy (w x)) @ Sleep (delays ! x) # snd (attempts c a w xs)"
  by (cases "reply (w x)"; cases "attempts c a w xs") (auto simp: Let_def split: json_body.splits)


lemma attempts_Cons_posts:
  "posts_of (snd (attempts c a w (x # xs))) = posts_of (request_events c a (gpu_busy (w x))) \<or>
   posts_of (snd (attempts c a w (x # xs))) =
     posts_of (request_events c a (gpu_busy (w x))) @ posts_of (snd (attempts c a w xs))"
  using attempts_Cons_events [of c a w x xs]
  by (auto simp: posts_of_append simp del: attempts.simps)

lemma attempts_posts:
  "i < length (posts_of (snd (attempts c a w as))) \<Longrightarrow>
     i < length as \<and>
     [posts_of (snd (attempts c a w as)) ! i] = posts_of (request_events c a (gpu_busy (w (as ! i))))"
proof (induction as arbitrary: i)
  case Nil
  then show ?case by simp
next
  case (Cons x xs)
  from attempts_Cons_posts [of c a w x xs] show ?case
  proof
    assume "posts_of (snd (attempts c a w (x # xs))) = posts_of (request_events c a (gpu_busy (w x)))"
    with Cons.prems show ?thesis by (simp add: posts_of_request_events del: attempts.simps)
  next
    assume e: "posts_of (snd (attempts c a w (x # xs))) =
      posts_of (request_events c a (gpu_busy (w x))) @ posts_of (snd (attempts c a w xs))"
    show ?thesis
    proof (cases i)
      case 0
      with e show ?thesis by (simp add: posts_of_request_events del: attempts.simps)
    next
      case (Suc j)
      with Cons.prems e have "j < length (posts_of (snd (attempts c a w xs)))"
        by (simp add: posts_of_request_events del: attempts.simps)
      from Cons.IH [OF this] Suc e show ?thesis
        by (simp add: posts_of_request_events del: attempts.simps)
    qed
  qed
qed

lemma attempts_posts_nonempty: "as \<noteq> [] \<Longrightarrow> posts_of (snd (attempts c a w as)) \<noteq> []"
proof (cases as)
  case Nil
  assume "as \<noteq> []" with Nil show ?thesis by simp
next
  case (Cons x xs)
  from attempts_Cons_posts [of c a w x xs] Cons show ?thesis
    by (auto simp: posts_of_request_events simp del: attempts.simps)
qed

text \<open>
  C5. Every request a call of \<open>generate\<close> sends goes to the primary host with the vision
  model when images are supplied, whatever the GPU-busy flag; with no images it goes to
  the primary host with the vision model when the flag file does not exist at that
  attempt, and to the CPU host with the summary model when it exists. The \<open>i\<close>-th request
  of a call is the one of attempt \<open>i\<close>, and a call sends at least one.
\<close>

theorem generate_routing:
  "posts_of (snd (generate c a w)) \<noteq> [] \<and>
   (\<forall>i < length (posts_of (snd (generate c a w))).
      posts_of (snd (generate c a w)) ! i =
        (if truthy_list (images a) then (host c @ ''/api/generate'', vision_model c)
         else if \<not> gpu_busy (w i) then (host c @ ''/api/generate'', vision_model c)
         else (cpu_host c @ ''/api/generate'', summary_model c)))"
proof (intro conjI allI impI)
  show "posts_of (snd (generate c a w)) \<noteq> []"
    unfolding generate_def range_attempts by (rule attempts_posts_nonempty) simp
next
  fix i assume "i < length (posts_of (snd (generate c a w)))"
  then have i: "i < length (posts_of (snd (attempts c a w [0, 1, 2, 3])))"
    by (simp add: generate_def range_attempts)
  from attempts_posts [OF i] have "i < 4" and
    p: "[posts_of (snd (attempts c a w [0, 1, 2, 3])) ! i] =
          posts_of (request_events c a (gpu_busy (w ([0, 1, 2, 3] ! i))))"
    by simp_all
  from \<open>i < 4\<close> have "i = 0 \<or> i = 1 \<or> i = 2 \<or> i = 3" by arith
  then have "[0, 1, 2, 3] ! i = i" by auto
  with p show "posts_of (snd (generate c a w)) ! i =
        (if truthy_list (images a) then (host c @ ''/api/generate'', vision_model c)
         else if \<not> gpu_busy (w i) then (host c @ ''/api/generate'', vision_model c)
         else (cpu_host c @ ''/api/generate'', summary_model c))"
    by (simp add: generate_def range_attempts posts_of_request_events del: attempts.simps)
qed

theorem generate_routing_witness:
  "posts_of (snd (generate example_client text_request busy_then_ok)) ! 0 =
     (''http://cpu:11434/api/generate'', ''llama3'')"
proof -
  note r = generate_routing [of example_client text_request busy_then_ok]
  from r have "0 < length (posts_of (snd (generate example_client text_request busy_then_ok)))"
    by simp
  with r have "posts_of (snd (generate example_client text_request busy_then_ok)) ! 0 =
        (if truthy_list (images text_request)
         then (host example_client @ ''/api/generate'', vision_model example_client)
         else if \<not> gpu_busy (busy_then_ok 0)
         then (host example_client @ ''/api/generate'', vision_model example_client)
         else (cpu_host example_client @ ''/api/generate'', summary_model example_client))"
    by blast
  then show ?thesis
    by (simp add: example_client_def text_request_def busy_then_ok_def truthy_list_def)
qed

lemma attempts_posts_length: "length (posts_of (snd (attempts c a w as))) \<le> length as"
proof (induction as)
  case Nil
  show ?case by simp
next
  case (Cons x xs)
  from attempts_Cons_events [of c a w x xs] Cons show ?case
    by (auto simp: posts_of_append posts_of_request_events simp del: attempts.simps)
qed

lemma generate_all_transient:
  assumes "\<forall>i<4. transient (reply (w i))"
  shows "generate c a w =
     ([], request_events c a (gpu_busy (w 0)) @ Sleep 5 #
          request_events c a (gpu_busy (w 1)) @ Sleep 10 #
          request_events c a (gpu_busy (w 2)) @ Sleep 15 #
          request_events c a (gpu_busy (w 3)))"
proof -
  from assms have t: "transient (reply (w 0))" "transient (reply (w 1))"
      "transient (reply (w 2))" "transient (reply (w 3))" by simp_all
  have a3: "attempts c a w [3] = ([], request_events c a (gpu_busy (w 3)))"
    using attempts_give_up [where w=w and c=c and a=a and x=3 and xs="[]"] t(4) by (simp add: delays_def del: attempts.simps)
  have a2: "attempts c a w [2, 3] =
      ([], request_events c a (gpu_busy (w 2)) @ Sleep 15 # request_events c a (gpu_busy (w 3)))"
    using attempts_retry [where w=w and c=c and a=a and x=2 and xs="[3]"] t(3) a3 by (simp add: delays_def del: attempts.simps)
  have a1: "attempts c a w [1, 2, 3] =
      ([], request_events c a (gpu_busy (w 1)) @ Sleep 10 #
           request_events c a (gpu_busy (w 2)) @ Sleep 15 # request_events c a (gpu_busy (w 3)))"
    using attempts_retry [where w=w and c=c and a=a and x=1 and xs="[2, 3]"] t(2) a2 by (simp add: delays_def del: attempts.simps)
  show ?thesis
    using attempts_retry [where w=w and c=c and a=a and x=0 and xs="[1, 2, 3]"] t(1) a1
    by (simp add: generate_def range_attempts delays_def del: attempts.simps)
qed

lemma generate_success_after:
  assumes k: "k < 4" and tr: "\<forall>i<k. transient (reply (w i))"
    and ok: "reply (w k) = Response 200 (Json_response (Some t))"
  shows "fst (generate c a w) = strip t \<and>
         sleeps_of (snd (generate c a w)) = take k [5, 10, 15] \<and>
         length (posts_of (snd (generate c a w))) = k + 1"
proof -
  from k have "k = 0 \<or> k = 1 \<or> k = 2 \<or> k = 3" by arith
  then show ?thesis
  proof (elim disjE)
    assume "k = 0"
    with ok show ?thesis
      using attempts_success [where w=w and c=c and a=a and x=0 and t=t and xs="[1, 2, 3]"]
      by (simp add: generate_def range_attempts posts_of_request_events sleeps_of_request_events
            del: attempts.simps)
  next
    assume k1: "k = 1"
    with tr have t0: "transient (reply (w 0))" by simp
    from k1 ok show ?thesis
      using attempts_retry [where w=w and c=c and a=a and x=0 and xs="[1, 2, 3]"] t0 attempts_success [where w=w and c=c and a=a and x=1 and t=t and xs="[2, 3]"]
      by (simp add: generate_def range_attempts posts_of_request_events sleeps_of_request_events
            posts_of_append sleeps_of_append delays_def del: attempts.simps)
  next
    assume k2: "k = 2"
    with tr have t0: "transient (reply (w 0))" and t1: "transient (reply (w 1))" by simp_all
    from k2 ok show ?thesis
      using attempts_retry [where w=w and c=c and a=a and x=0 and xs="[1, 2, 3]"] t0 attempts_retry [where w=w and c=c and a=a and x=1 and xs="[2, 3]"] t1
        attempts_success [where w=w and c=c and a=a and x=2 and t=t and xs="[3]"]
      by (simp add: generate_def range_attempts posts_of_request_events sleeps_of_request_events
            posts_of_append sleeps_of_append delays_def del: attempts.simps)
  next
    assume k3: "k = 3"
    with tr have t0: "transient (reply (w 0))" and t1: "transient (reply (w 1))"
      and t2: "transient (reply (w 2))" by simp_all
    from k3 ok show ?thesis
      using attempts_retry [where w=w and c=c and a=a and x=0 and xs="[1, 2, 3]"] t0 attempts_retry [where w=w and c=c and a=a and x=1 and xs="[2, 3]"] t1
        attempts_retry [where w=w and c=c and a=a and x=2 and xs="[3]"] t2 attempts_success [where w=w and c=c and a=a and x=3 and t=t and xs="[]"]
      by (simp add: generate_def range_attempts posts_of_request_events sleeps_of_request_events
            posts_of_append sleeps_of_append delays_def del: attempts.simps)
  qed
qed

text \<open>
  C6. A call of \<open>generate\<close> makes at most four attempts. When every attempt fails
  transiently (an exception of the request, or HTTP 500) it sleeps 5, 10 and 15 seconds
  between them and returns the empty string; it has no way to raise. When the first
  \<open>k\<close> attempts fail transiently and the next one answers 200 with the text \<open>t\<close>, it has
  slept the first \<open>k\<close> delays and returns \<open>t\<close> with the surrounding whitespace stripped.
\<close>

theorem generate_retry:
  "length (posts_of (snd (generate c a w))) \<le> 4 \<and>
   ((\<forall>i<4. transient (reply (w i))) \<longrightarrow>
      fst (generate c a w) = [] \<and>
      sleeps_of (snd (generate c a w)) = [5, 10, 15] \<and>
      length (posts_of (snd (generate c a w))) = 4) \<and>
   (\<forall>k t. k < 4 \<and> (\<forall>i<k. transient (reply (w i))) \<and>
          reply (w k) = Response 200 (Json_response (Some t)) \<longrightarrow>
      fst (generate c a w) = strip t \<and>
      sleeps_of (snd (generate c a w)) = take k [5, 10, 15] \<and>
      length (posts_of (snd (generate c a w))) = k + 1)"
proof (intro conjI allI impI)
  show "length (posts_of (snd (generate c a w))) \<le> 4"
    using attempts_posts_length [of c a w "[0, 1, 2, 3]"] by (simp add: generate_def range_attempts)
next
  assume all: "\<forall>i<4. transient (reply (w i))"
  note g = generate_all_transient [OF all, of c a]
  show "fst (generate c a w) = []" by (simp add: g)
  show "sleeps_of (snd (generate c a w)) = [5, 10, 15]"
    by (simp add: g sleeps_of_append sleeps_of_request_events)
  show "length (posts_of (snd (generate c a w))) = 4"
    by (simp add: g posts_of_append posts_of_request_events)
next
  fix k t
  assume h: "k < 4 \<and> (\<forall>i<k. transient (reply (w i))) \<and>
          reply (w k) = Response 200 (Json_response (Some t))"
  then have k: "k < 4" and tr: "\<forall>i<k. transient (reply (w i))"
    and ok: "reply (w k) = Response 200 (Json_response (Some t))" by simp_all
  note s = generate_success_after [OF k tr ok, of c a]
  from s show "fst (generate c a w) = strip t" by simp
  from s show "sleeps_of (snd (generate c a w)) = take k [5, 10, 15]" by simp
  from s show "length (posts_of (snd (generate c a w))) = k + 1" by simp
qed


theorem generate_retry_witness:
  "fst (generate example_client text_request busy_then_ok) = ''Rechnung 42'' \<and>
   sleeps_of (snd (generate example_client text_request busy_then_ok)) = [5, 10] \<and>
   fst (generate example_client text_request always_down) = [] \<and>
   sleeps_of (snd (generate example_client text_request always_down)) = [5, 10, 15]"
proof -
  have tr: "\<forall>i<2. transient (reply (busy_then_ok i))"
    by (simp add: busy_then_ok_def transient_def)
  have ok: "reply (busy_then_ok 2) = Response 200 (Json_response (Some '' Rechnung 42 ''))"
    by (simp add: busy_then_ok_def)
  have down: "\<forall>i<4. transient (reply (always_down i))"
    by (simp add: always_down_def transient_def)
  have s: "strip '' Rechnung 42 '' = ''Rechnung 42''"
    by (simp add: strip_def is_space_def)
  note g = generate_retry [of example_client text_request busy_then_ok,
      THEN conjunct2, THEN conjunct2, rule_format, of 2 "'' Rechnung 42 ''"]
  from g tr ok
  have "fst (generate example_client text_request busy_then_ok) = strip '' Rechnung 42 '' \<and>
        sleeps_of (snd (generate example_client text_request busy_then_ok)) = take 2 [5, 10, 15]"
    by simp
  moreover from generate_retry [of example_client text_request always_down] down
  have "fst (generate example_client text_request always_down) = [] \<and>
        sleeps_of (snd (generate example_client text_request always_down)) = [5, 10, 15]"
    by blast
  ultimately show ?thesis by (simp add: s)
qed

section \<open>Properties of the worker\<close>

lemma standard_path_raises:
  "standard_path env item s = Inl (NameError ''full_ai_text'', s)"
  by (simp add: standard_path_def full_ai_text_def)

lemma retroactive_path_id: "retroactive_path item s = s"
  by (simp add: retroactive_path_def client_session_def)

lemma try_body_standard:
  "\<not> truthy_int (retro_doc_id item) \<Longrightarrow>
     try_body env item s = Inl (NameError ''full_ai_text'', s\<lparr>gpu_busy_flag := True\<rparr>)"
  by (simp add: try_body_def Let_def standard_path_raises)

lemma try_body_retro:
  "truthy_int (retro_doc_id item) \<Longrightarrow>
     try_body env item s = finish_job item (s\<lparr>gpu_busy_flag := True\<rparr>)"
  by (simp add: try_body_def Let_def retroactive_path_id)

lemma finish_job_no_raise:
  "0 < unfinished_tasks s \<Longrightarrow> \<exists>s'. finish_job item s = Inr s'"
  by (simp add: finish_job_def task_done_def rmtree_def Let_def)

lemma except_handler_Some:
  "except_handler (Some item) s =
     (case staging s (staged_file item) of
        None \<Rightarrow> s\<lparr>gpu_busy_flag := False, work_dirs := work_dirs s - {work_dir item},
                  unfinished_tasks := unfinished_tasks s - 1\<rparr>
      | Some bs \<Rightarrow> s\<lparr>gpu_busy_flag := False, work_dirs := work_dirs s - {work_dir item},
                    staging := (staging s)(staged_file item := None),
                    consume := (consume s)(original_filename item \<mapsto> bs),
                    unfinished_tasks := unfinished_tasks s - 1\<rparr>)"
proof (cases "staging s (staged_file item)")
  case None
  then have d: "staged_file item \<notin> dom (staging s)" by (simp add: domIff)
  show ?thesis
    by (cases "gpu_busy_flag s"; cases "work_dir item \<in> work_dirs s"; cases "unfinished_tasks s = 0")
       (simp_all add: except_handler_def None d rmtree_def task_done_def)
next
  case (Some bs)
  then have d: "staged_file item \<in> dom (staging s)" by (simp add: domIff)
  show ?thesis
    by (cases "gpu_busy_flag s"; cases "work_dir item \<in> work_dirs s"; cases "unfinished_tasks s = 0")
       (simp_all add: except_handler_def Some d rmtree_def task_done_def move_to_consume_def)
qed


lemma except_handler_flag: "\<not> gpu_busy_flag (except_handler (Some item) s)"
  by (simp add: except_handler_Some split: option.split)

lemma except_handler_work_dir: "work_dir item \<notin> work_dirs (except_handler (Some item) s)"
  by (simp add: except_handler_Some split: option.split)

lemma except_handler_staged: "staged_file item \<notin> dom (staging (except_handler (Some item) s))"
  by (simp add: except_handler_Some domIff split: option.split)

lemma except_handler_delivered:
  "staging s (staged_file item) = Some bs \<Longrightarrow>
     consume (except_handler (Some item) s) (original_filename item) = Some bs"
  by (simp add: except_handler_Some)

lemma except_handler_task_done:
  "0 < unfinished_tasks s \<Longrightarrow>
     unfinished_tasks (except_handler (Some item) s) + 1 = unfinished_tasks s"
  by (simp add: except_handler_Some split: option.split)

lemma except_handler_md_buffer: "md_buffer (except_handler (Some item) s) = md_buffer s"
  by (simp add: except_handler_Some split: option.split)

lemma gpu_worker_step_standard:
  assumes "ocr_queue s = item # rest" and "\<not> truthy_int (retro_doc_id item)"
  shows "gpu_worker_step env s =
     Some (except_handler (Some item) (s\<lparr>ocr_queue := rest, gpu_busy_flag := True\<rparr>),
           Some (NameError ''full_ai_text''))"
  using assms by (simp add: gpu_worker_step_def try_body_standard)

lemma gpu_worker_step_retro:
  assumes "ocr_queue s = item # rest" and "truthy_int (retro_doc_id item)"
    and "0 < unfinished_tasks s"
  shows "\<exists>s'. gpu_worker_step env s = Some (s', None)"
proof -
  from assms(3) have "0 < unfinished_tasks (s\<lparr>ocr_queue := rest, gpu_busy_flag := True\<rparr>)" by simp
  from finish_job_no_raise [OF this, of item] obtain s1
    where "finish_job item (s\<lparr>ocr_queue := rest, gpu_busy_flag := True\<rparr>) = Inr s1" ..
  with assms(1,2) show ?thesis by (simp add: gpu_worker_step_def try_body_retro)
qed

text \<open>
  C4. When the turn of the worker for a dequeued job ends in the \<open>except\<close> branch, then
  afterwards the GPU-busy flag does not exist, the work directory of the job is gone, the
  staged file is no longer in the staging directory and, if it was there, lies in the
  consume directory under the original file name with the same bytes, and \<open>task_done\<close>
  has counted the job. The queue counted the job when it was put (\<open>0 < unfinished_tasks\<close>).
\<close>

theorem worker_exception_cleanup:
  assumes q: "ocr_queue s = item # rest"
    and u: "0 < unfinished_tasks s"
    and r: "gpu_worker_step env s = Some (s', Some e)"
  shows "\<not> gpu_busy_flag s' \<and>
         work_dir item \<notin> work_dirs s' \<and>
         staged_file item \<notin> dom (staging s') \<and>
         (\<forall>bs. staging s (staged_file item) = Some bs \<longrightarrow>
               consume s' (original_filename item) = Some bs) \<and>
         unfinished_tasks s' + 1 = unfinished_tasks s"
proof -
  let ?s1 = "s\<lparr>ocr_queue := rest, gpu_busy_flag := True\<rparr>"
  have n: "\<not> truthy_int (retro_doc_id item)"
  proof
    assume "truthy_int (retro_doc_id item)"
    from gpu_worker_step_retro [OF q this u, of env] r show False by auto
  qed
  from gpu_worker_step_standard [OF q n, of env] r
  have s': "s' = except_handler (Some item) ?s1" by simp
  from u have u': "0 < unfinished_tasks ?s1" by simp
  have "\<not> gpu_busy_flag s'" unfolding s' by (rule except_handler_flag)
  moreover have "work_dir item \<notin> work_dirs s'" unfolding s' by (rule except_handler_work_dir)
  moreover have "staged_file item \<notin> dom (staging s')" unfolding s' by (rule except_handler_staged)
  moreover have "\<forall>bs. staging s (staged_file item) = Some bs \<longrightarrow>
               consume s' (original_filename item) = Some bs"
    unfolding s' using except_handler_delivered [of ?s1 item] by simp
  moreover have "unfinished_tasks s' + 1 = unfinished_tasks s"
    unfolding s' using except_handler_task_done [OF u', of item] by simp
  ultimately show ?thesis by blast
qed

theorem worker_exception_cleanup_witness:
  "map_option (\<lambda>r. (snd r, gpu_busy_flag (fst r), work_dirs (fst r), dom (staging (fst r)),
                     consume (fst r) ''scan.pdf'', unfinished_tasks (fst r)))
      (gpu_worker_step example_env example_world) =
   Some (Some (NameError ''full_ai_text''), False, {}, {}, Some ''%PDF-1.4'', 0)"
proof -
  have q: "ocr_queue example_world = example_job # []" by (simp add: example_world_def)
  have u: "0 < unfinished_tasks example_world" by (simp add: example_world_def)
  have n: "\<not> truthy_int (retro_doc_id example_job)" by (simp add: example_job_def truthy_int_def)
  note st = gpu_worker_step_standard [OF q n, of example_env]
  let ?s' = "except_handler (Some example_job) (example_world\<lparr>ocr_queue := [], gpu_busy_flag := True\<rparr>)"
  have b: "staging example_world (staged_file example_job) = Some ''%PDF-1.4''"
    by (simp add: example_world_def example_job_def)
  from worker_exception_cleanup [OF q u st] b
  have c: "\<not> gpu_busy_flag ?s' \<and> work_dir example_job \<notin> work_dirs ?s' \<and>
        staged_file example_job \<notin> dom (staging ?s') \<and>
        consume ?s' (original_filename example_job) = Some ''%PDF-1.4'' \<and>
        unfinished_tasks ?s' + 1 = unfinished_tasks example_world" by blast
  have w: "work_dirs ?s' \<subseteq> {work_dir example_job}"
    by (simp add: except_handler_Some example_world_def example_job_def)
  have d: "dom (staging ?s') \<subseteq> {staged_file example_job}"
    by (simp add: except_handler_Some example_world_def example_job_def)
  from c w have "work_dirs ?s' = {}" by blast
  moreover from c d have "dom (staging ?s') = {}" by blast
  moreover from c have "unfinished_tasks ?s' = 0" by (simp add: example_world_def)
  moreover from c have "consume ?s' ''scan.pdf'' = Some ''%PDF-1.4''" by (simp add: example_job_def)
  ultimately show ?thesis using c by (simp add: st)
qed

text \<open>
  C1, on the code: the turn of the worker for a new (not retroactive) scan never reaches
  the write of the sidecar. Building the dictionary reads \<open>full_ai_text\<close>, which raises
  \<open>NameError\<close>; the handler then moves the staged file to the consume directory. After
  the turn there is no \<open>uid.json\<close> in the buffer directory.
\<close>

theorem worker_writes_no_sidecar:
  "map_option snd (gpu_worker_step example_env example_world) = Some (Some (NameError ''full_ai_text'')) \<and>
   map_option (\<lambda>r. md_buffer (fst r) ''0f343b0931126a20f133d67c2b018a3b.json'')
      (gpu_worker_step example_env example_world) = Some None \<and>
   map_option (\<lambda>r. consume (fst r) ''scan.pdf'') (gpu_worker_step example_env example_world) =
      Some (Some ''%PDF-1.4'')"
proof -
  have q: "ocr_queue example_world = example_job # []" by (simp add: example_world_def)
  have n: "\<not> truthy_int (retro_doc_id example_job)" by (simp add: example_job_def truthy_int_def)
  note st = gpu_worker_step_standard [OF q n, of example_env]
  have b: "staging (example_world\<lparr>ocr_queue := [], gpu_busy_flag := True\<rparr>) (staged_file example_job) =
      Some ''%PDF-1.4''"
    by (simp add: example_world_def example_job_def)
  have m: "md_buffer (example_world\<lparr>ocr_queue := [], gpu_busy_flag := True\<rparr>) = Map.empty"
    by (simp add: example_world_def)
  have o: "original_filename example_job = ''scan.pdf''" by (simp add: example_job_def)
  show ?thesis
    using except_handler_delivered [OF b] by (simp add: st except_handler_md_buffer m o)
qed

section \<open>Properties of the content hashes\<close>

lemma length_hexdigest: "length (hexdigest (d :: 'a::len word)) = LENGTH('a) div 4"
  by (simp add: hexdigest_def)

text \<open>
  C2, on the code: the uid of the watchdog is the MD5 digest of the file in hexadecimal
  (32 digits), the uid of the post-consume stage is the SHA-256 digest (64 digits). For
  every file they differ, and the sidecar path the post-consume stage looks at is never
  the name \<open>uid.json\<close> the watchdog's uid gives.
\<close>

theorem producer_and_reader_uid_differ:
  "calculate_md5 md5 (Some bs) = Inr (hexdigest (md5 (read_chunks bs))) \<and>
   post_consume_uid sha256 (Some bs) = Some (hexdigest (sha256 (read_chunks bs))) \<and>
   hexdigest (md5 (read_chunks bs)) \<noteq> hexdigest (sha256 (read_chunks bs)) \<and>
   sidecar_path sha256 (Some bs) original \<noteq> hexdigest (md5 (read_chunks bs)) @ ''.json''"
proof -
  let ?m = "hexdigest (md5 (read_chunks bs))" and ?s = "hexdigest (sha256 (read_chunks bs))"
  have lm: "length ?m = 32" and ls: "length ?s = 64" by (simp_all add: length_hexdigest)
  from lm ls have ne: "?m \<noteq> ?s" by auto
  from ls have "?s \<noteq> []" by auto
  then have sp: "sidecar_path sha256 (Some bs) original = ?s @ ''.json''"
    by (simp add: sidecar_path_def post_consume_uid_def)
  from ne have "?s @ ''.json'' \<noteq> ?m @ ''.json''" by simp
  with sp ne show ?thesis by (simp add: calculate_md5_def post_consume_uid_def)
qed

section \<open>Properties of the page loop\<close>

lemma optimize_pages_length: "length (fst (optimize_pages pipeline ps)) = length ps"
  by (induction ps) (auto split: prod.splits)

text \<open>
  C9, on the code: the loop of the watchdog appends the result of \<open>optimize_image\<close> for
  every page, so a page whose normalisation failed stays in the sequence as the empty
  string (the failure is logged and the other pages are processed). The loop of
  \<open>perform_vision_retry\<close> drops it.
\<close>

theorem failed_page_is_kept:
  "optimize_pages broken_second_page [''page-01.jpg'', ''page-02.jpg'', ''page-03.jpg''] =
     ([''iVBORw0KGgo-page-01.jpg'', [], ''iVBORw0KGgo-page-03.jpg''],
      [Log_error ''Error optimizing image page-02.jpg'']) \<and>
   fst (retry_optimize_pages broken_second_page [''page-01.jpg'', ''page-02.jpg'', ''page-03.jpg'']) =
     [''iVBORw0KGgo-page-01.jpg'', ''iVBORw0KGgo-page-03.jpg'']"
  by (simp add: optimize_image_def broken_second_page_def)

section \<open>Properties of the recovery\<close>

lemma hexdigest_zero: "hexdigest (0 :: 128 word) = ''00000000000000000000000000000000''"
  by (simp add: hexdigest_def hex_digit_def upt_rec)

lemma stem_example: "stem ''0f343b0931126a20f133d67c2b018a3b.pdf'' = ''0f343b0931126a20f133d67c2b018a3b''"
  by (simp add: stem_def)

lemma zombie_lookup:
  "get_document_by_checksum zombie_backend ''0f343b0931126a20f133d67c2b018a3b'' =
     Inr (Some \<lparr> bd_id = 7, bd_title = ''Rechnung'', bd_checksum = ''0f343b0931126a20f133d67c2b018a3b'' \<rparr>)"
  by (simp add: get_document_by_checksum_def zombie_backend_def)

lemma zombie_ghost_check:
  "ghost_check zombie_backend
       (''0f343b0931126a20f133d67c2b018a3b'' # cs)
       ''0f343b0931126a20f133d67c2b018a3b.pdf'' crashed_world =
     Inr (crashed_world\<lparr>staging := Map.empty\<rparr>)"
  by (simp add: zombie_lookup unlink_staged_def crashed_world_def)

lemma recover_try_zombie:
  "recover_try zombie_env ''0f343b0931126a20f133d67c2b018a3b.pdf'' crashed_world =
     Inr (crashed_world\<lparr>staging := Map.empty\<rparr>)"
proof -
  have a: "calculate_md5 (rc_md5 zombie_env) (staging crashed_world ''0f343b0931126a20f133d67c2b018a3b.pdf'') =
      Inr ''00000000000000000000000000000000''"
    by (simp add: calculate_md5_def zombie_env_def crashed_world_def hexdigest_zero)
  have r: "remdups [''0f343b0931126a20f133d67c2b018a3b'', ''00000000000000000000000000000000''] =
     [''0f343b0931126a20f133d67c2b018a3b'', ''00000000000000000000000000000000'']"
    by simp
  have c: "rc_client zombie_env = Some zombie_backend" by (simp add: zombie_env_def)
  have d: "''0f343b0931126a20f133d67c2b018a3b.pdf'' \<notin> dom (staging (crashed_world\<lparr>staging := Map.empty\<rparr>))"
    by simp
  show ?thesis
    unfolding recover_try_def Let_def stem_example a sum.case c option.case r zombie_ghost_check
    using d by simp
qed

text \<open>
  C3, on the code: recovery unlinks the staged file as soon as the backend knows the
  checksum; it does not look whether the file of that document is on disk. For a match
  that \<open>process_file_single\<close> would call a zombie, the staged file is deleted and nothing
  is put into the queue or the consume directory.
\<close>

theorem recovery_deletes_zombie_match:
  "file_exists_check zombie_backend 7 = False \<and>
   staging (recover_staged_files zombie_env [''0f343b0931126a20f133d67c2b018a3b.pdf''] crashed_world)
     ''0f343b0931126a20f133d67c2b018a3b.pdf'' = None \<and>
   ocr_queue (recover_staged_files zombie_env [''0f343b0931126a20f133d67c2b018a3b.pdf''] crashed_world) = [] \<and>
   consume (recover_staged_files zombie_env [''0f343b0931126a20f133d67c2b018a3b.pdf''] crashed_world)
     ''0f343b0931126a20f133d67c2b018a3b.pdf'' = None"
proof -
  have z: "file_exists_check zombie_backend 7 = False"
    by (simp add: file_exists_check_def zombie_backend_def)
  have w: "crashed_world\<lparr>work_dirs := {d \<in> work_dirs crashed_world. \<not> prefix ''watch_work_'' d}\<rparr> = crashed_world"
    by (simp add: crashed_world_def)
  have r: "recover_staged_files zombie_env [''0f343b0931126a20f133d67c2b018a3b.pdf''] crashed_world =
      crashed_world\<lparr>staging := Map.empty\<rparr>"
    by (simp add: recover_staged_files_def w recover_one_def recover_try_zombie)
  show ?thesis by (simp add: z r) (simp add: crashed_world_def)
qed

section \<open>Properties of the duplicate detector\<close>

lemma examine_first_match:
  "examine env d content cands =
     (case dropWhile (\<lambda>c. \<not> survives env content c) cands of
        [] \<Rightarrow> map (\<lambda>c. Checked (cand_id c)) cands
      | c # later \<Rightarrow>
          map (\<lambda>c. Checked (cand_id c)) (takeWhile (\<lambda>c. \<not> survives env content c) cands) @
          [Checked (cand_id c), Handle_duplicate d (cand_id c) (cand_similarity c)])"
proof (induction cands)
  case Nil
  show ?case by simp
next
  case (Cons best rest)
  show ?case
  proof (cases "survives env content best")
    case True
    then show ?thesis
      by (auto simp: survives_def split: sum.splits option.splits)
  next
    case False
    then have e: "examine env d content (best # rest) =
        Checked (cand_id best) # examine env d content rest"
      by (auto simp: survives_def split: sum.splits option.splits)
    from False have dw: "dropWhile (\<lambda>c. \<not> survives env content c) (best # rest) =
        dropWhile (\<lambda>c. \<not> survives env content c) rest"
      and tw: "takeWhile (\<lambda>c. \<not> survives env content c) (best # rest) =
        best # takeWhile (\<lambda>c. \<not> survives env content c) rest"
      by simp_all
    note IH = Cons.IH
    show ?thesis
    proof (cases "dropWhile (\<lambda>c. \<not> survives env content c) rest")
      case Nil
      show ?thesis unfolding e dw tw IH Nil by simp
    next
      case (Cons c later)
      show ?thesis unfolding e dw tw IH Cons by simp
    qed
  qed
qed

lemma process_reaches_search:
  assumes "config_entry env = Some cfg" and "cfg_enabled cfg = Some True"
    and "50 \<le> length content" and "new_chroma_client env = Inr ch"
  shows "process env d content =
     Inr (examine env d content
            (find_similar ch content (case cfg_threshold cfg of None \<Rightarrow> 0.85 | Some t \<Rightarrow> t) (Some d) 25))"
proof -
  from assms(3) have "content \<noteq> []" "\<not> length content < 50" by auto
  with assms show ?thesis
    by (cases "find_similar ch content (case cfg_threshold cfg of None \<Rightarrow> 0.85 | Some t \<Rightarrow> t) (Some d) 25")
       (simp_all add: process_def Let_def)
qed

text \<open>
  C7. In a run that reaches the similarity search and gets a non-empty list, the
  candidates are evaluated in the order of that list; the run stops at the first
  candidate that passes the cascade, calls \<open>handle_duplicate\<close> for it and evaluates no
  later candidate. When no candidate passes, all are evaluated and nothing is confirmed.
  (The list keeps the order of the index's answer, see \<open>find_similar_descending\<close>.)
\<close>

theorem process_first_match:
  assumes "config_entry env = Some cfg" and "cfg_enabled cfg = Some True"
    and "50 \<le> length content" and "new_chroma_client env = Inr ch"
    and "find_similar ch content (case cfg_threshold cfg of None \<Rightarrow> 0.85 | Some t \<Rightarrow> t) (Some d) 25 = cands"
    and "cands \<noteq> []"
  shows "process env d content =
     Inr (case dropWhile (\<lambda>c. \<not> survives env content c) cands of
            [] \<Rightarrow> map (\<lambda>c. Checked (cand_id c)) cands
          | c # later \<Rightarrow>
              map (\<lambda>c. Checked (cand_id c)) (takeWhile (\<lambda>c. \<not> survives env content c) cands) @
              [Checked (cand_id c), Handle_duplicate d (cand_id c) (cand_similarity c)])"
  using process_reaches_search [OF assms(1-4), of d] assms(5)
  by (simp add: examine_first_match)

text \<open>
  C8. The thresholds of the date check and of the feature check are antitone in the
  similarity: 0.8 up to a similarity of 0.98 and 0.5 above it, so an overlap that is
  rejected at the higher similarity is rejected at the lower one too.
\<close>

theorem thresholds_antitone:
  assumes "s1 \<le> s2"
  shows "date_threshold s2 \<le> date_threshold s1 \<and> feat_threshold s2 \<le> feat_threshold s1 \<and>
         date_threshold s1 = (if 0.98 < s1 then 0.5 else 0.8) \<and>
         feat_threshold s1 = (if 0.98 < s1 then 0.5 else 0.8) \<and>
         (\<forall>j. j < date_threshold s2 \<longrightarrow> j < date_threshold s1) \<and>
         (\<forall>j. j < feat_threshold s2 \<longrightarrow> j < feat_threshold s1)"
  using assms by (auto simp: date_threshold_def feat_threshold_def)

theorem thresholds_antitone_witness:
  "(0.9 :: real) \<le> 0.99 \<and> date_threshold 0.99 = 0.5 \<and> date_threshold 0.9 = 0.8 \<and>
   date_threshold 0.99 \<le> date_threshold 0.9 \<and> feat_threshold 0.99 \<le> feat_threshold 0.9"
proof -
  have h: "(0.9 :: real) \<le> 0.99" by simp
  from thresholds_antitone [OF h] show ?thesis
    by (simp add: date_threshold_def)
qed

lemma find_similar_query_fails:
  "collection_query ch (get_embedding ch content) n = Inl e \<Longrightarrow> find_similar ch content thr ex n = []"
  by (simp add: find_similar_def Let_def)

text \<open>
  C10. When the \<open>ChromaClient\<close> cannot be constructed, or the query of the collection
  raises, or the search returns no candidate, the run returns normally without evaluating
  a candidate and without calling \<open>handle_duplicate\<close>.
\<close>

theorem process_degrades_silently:
  assumes "config_entry env = Some cfg"
    and "(\<exists>e. new_chroma_client env = Inl e) \<or>
         (\<exists>ch. new_chroma_client env = Inr ch \<and>
            ((\<exists>e. collection_query ch (get_embedding ch content) 25 = Inl e) \<or>
             find_similar ch content (case cfg_threshold cfg of None \<Rightarrow> 0.85 | Some t \<Rightarrow> t) (Some d) 25 = []))"
  shows "process env d content = Inr []"
proof -
  from assms(2) consider (ctor) e where "new_chroma_client env = Inl e"
    | (empty) ch where "new_chroma_client env = Inr ch"
        "find_similar ch content (case cfg_threshold cfg of None \<Rightarrow> 0.85 | Some t \<Rightarrow> t) (Some d) 25 = []"
    using find_similar_query_fails by blast
  then show ?thesis
  proof cases
    case ctor
    with assms(1) show ?thesis by (simp add: process_def)
  next
    case empty
    with assms(1) show ?thesis by (simp add: process_def Let_def)
  qed
qed


lemma collect_similar_filter:
  "collect_similar hits thr ex = Inr cs \<Longrightarrow>
     cs = map (\<lambda>h. \<lparr> cand_id = projr (hit_id h), cand_similarity = 1 - hit_distance h \<rparr>)
            (filter (\<lambda>h. \<not> (truthy_int ex \<and> Some (projr (hit_id h)) = ex) \<and> thr \<le> 1 - hit_distance h) hits)"
proof (induction hits arbitrary: cs)
  case Nil
  then show ?case by simp
next
  case (Cons h hs)
  from Cons.prems obtain i where i: "hit_id h = Inr i"
    by (cases "hit_id h") auto
  from Cons.prems i obtain cs' where cs': "collect_similar hs thr ex = Inr cs'"
    by (cases "collect_similar hs thr ex") auto
  note IH = Cons.IH [OF cs']
  from Cons.prems i cs' IH show ?case
    by (auto simp: Let_def split: if_splits)
qed

lemma find_similar_descending:
  assumes "collection_query ch (get_embedding ch content) n = Inr hits"
    and "sorted (map hit_distance hits)"
  shows "sorted_wrt (\<lambda>a b. cand_similarity b \<le> cand_similarity a) (find_similar ch content thr ex n)"
proof (cases "get_embedding ch content = []")
  case True
  then show ?thesis by (simp add: find_similar_def)
next
  case False
  show ?thesis
  proof (cases "collect_similar hits thr ex")
    case (Inl e)
    with False assms(1) show ?thesis by (simp add: find_similar_def)
  next
    case (Inr cs)
    from assms(2) have "sorted_wrt (\<lambda>a b. hit_distance a \<le> hit_distance b) hits"
      by (simp add: sorted_map)
    then have "sorted_wrt (\<lambda>a b. hit_distance a \<le> hit_distance b)
        (filter (\<lambda>h. \<not> (truthy_int ex \<and> Some (projr (hit_id h)) = ex) \<and> thr \<le> 1 - hit_distance h) hits)"
      by (rule sorted_wrt_filter)
    then have "sorted_wrt (\<lambda>a b. cand_similarity b \<le> cand_similarity a) cs"
      unfolding collect_similar_filter [OF Inr] by (simp add: sorted_wrt_map)
    with False assms(1) Inr show ?thesis by (simp add: find_similar_def)
  qed
qed

lemma example_find_similar:
  "find_similar example_chroma invoice_text (85 / 100) (Some 10) 25 =
     [\<lparr> cand_id = 11, cand_similarity = 99 / 100 \<rparr>, \<lparr> cand_id = 12, cand_similarity = 97 / 100 \<rparr>,
      \<lparr> cand_id = 13, cand_similarity = 93 / 100 \<rparr>]"
  by (simp add: find_similar_def get_embedding_def example_chroma_def invoice_text_def truthy_int_def)

lemma invoice_text_length: "length invoice_text = 75"
  by (simp add: invoice_text_def)

lemma example_stale: "\<not> survives example_detector invoice_text \<lparr> cand_id = 11, cand_similarity = 99 / 100 \<rparr>"
  by (simp add: survives_def example_detector_def)

lemma example_safety_check: "safety_check example_detector invoice_text invoice_text (97 / 100)"
  by (simp add: safety_check_def example_detector_def calculate_jaccard_def
        check_word_similarity_def invoice_text_length Let_def)

lemma example_confirmed: "survives example_detector invoice_text \<lparr> cand_id = 12, cand_similarity = 97 / 100 \<rparr>"
proof -
  have "invoice_text \<noteq> []" using invoice_text_length by auto
  with example_safety_check show ?thesis
    by (simp add: survives_def example_detector_def)
qed

theorem process_first_match_witness:
  "process example_detector 10 invoice_text =
     Inr [Checked 11, Checked 12, Handle_duplicate 10 12 (97 / 100)]"
proof -
  have c: "config_entry example_detector = Some \<lparr> cfg_enabled = Some True, cfg_threshold = None \<rparr>"
    and n: "new_chroma_client example_detector = Inr example_chroma"
    by (simp_all add: example_detector_def)
  have e: "cfg_enabled \<lparr> cfg_enabled = Some True, cfg_threshold = None \<rparr> = Some True" by simp
  have l: "50 \<le> length invoice_text" by (simp add: invoice_text_length)
  have f: "find_similar example_chroma invoice_text
      (case cfg_threshold \<lparr> cfg_enabled = Some True, cfg_threshold = None \<rparr> of None \<Rightarrow> 0.85 | Some t \<Rightarrow> t)
      (Some 10) 25 =
     [\<lparr> cand_id = 11, cand_similarity = 99 / 100 \<rparr>, \<lparr> cand_id = 12, cand_similarity = 97 / 100 \<rparr>,
      \<lparr> cand_id = 13, cand_similarity = 93 / 100 \<rparr>]"
    using example_find_similar by simp
  have ne: "[\<lparr> cand_id = 11, cand_similarity = 99 / 100 \<rparr>, \<lparr> cand_id = 12, cand_similarity = 97 / 100 \<rparr>,
      \<lparr> cand_id = 13, cand_similarity = 93 / 100 :: real \<rparr>] \<noteq> []" by simp
  from process_first_match [OF c e l n f ne] show ?thesis
    by (simp add: example_stale example_confirmed)
qed

theorem process_degrades_silently_witness:
  "process broken_index_detector 10 invoice_text = Inr []"
proof -
  let ?ch = "example_chroma\<lparr>collection_query := (\<lambda>e n. Inl (OtherError ''connection refused''))\<rparr>"
  have c: "config_entry broken_index_detector = Some \<lparr> cfg_enabled = Some True, cfg_threshold = None \<rparr>"
    and n: "new_chroma_client broken_index_detector = Inr ?ch"
    by (simp_all add: broken_index_detector_def example_detector_def)
  have q: "collection_query ?ch (get_embedding ?ch invoice_text) 25 = Inl (OtherError ''connection refused'')"
    by simp
  from n q have "(\<exists>e. new_chroma_client broken_index_detector = Inl e) \<or>
         (\<exists>ch. new_chroma_client broken_index_detector = Inr ch \<and>
            ((\<exists>e. collection_query ch (get_embedding ch invoice_text) 25 = Inl e) \<or>
             find_similar ch invoice_text
               (case cfg_threshold \<lparr> cfg_enabled = Some True, cfg_threshold = None \<rparr> of None \<Rightarrow> 0.85 | Some t \<Rightarrow> t)
               (Some 10) 25 = []))"
    by blast
  from process_degrades_silently [OF c this] show ?thesis .
qed

end
